theory Spec2Isabelle
  imports Main "HOL-Library.Word"
begin

section \<open>The CDR client of go-hsdp-api: data model\<close>

text \<open>
  A shallow embedding of \<^verbatim>\<open>cdr/client.go\<close>. Go strings are byte strings and are
  modelled as \<open>string\<close>; a \<^verbatim>\<open>[]byte\<close> is a list of 8-bit words. A Go \<^verbatim>\<open>error\<close> is a
  value of \<open>gerror\<close>, with \<open>None\<close> of \<open>gerror option\<close> for \<^verbatim>\<open>nil\<close>. A nil pointer
  dereference, a call through a nil interface and a write to a nil map are the outcome
  \<open>Panics\<close>.
\<close>

type_synonym byte = "8 word"

text \<open>
  The sentinel errors of the package live in its \<^verbatim>\<open>errors.go\<close>; the two that
  \<^verbatim>\<open>client.go\<close> returns are constructors here. \<open>Foreign\<close> stands for every error
  value that comes from outside the package: the URL parser, the JSON codecs, an option
  function, the HTTP transport.
\<close>

datatype gerror = ErrCDRURLCannotBeEmpty | ErrNonHttp20xResponse | Foreign string

datatype 'a outcome = Panics | Returns 'a

definition libraryVersion :: string where
  "libraryVersion = ''0.27.0''"

definition userAgent :: string where
  "userAgent = ''go-hsdp-api/cdr/'' @ libraryVersion"

definition APIVersion :: string where
  "APIVersion = ''1''"

record Config =
  Region :: string
  Environment :: string
  RootOrgID :: string
  CDRURL :: string
  FHIRStore :: string
  TimeZone :: string
  DebugLog :: string

text \<open>The fields of \<^verbatim>\<open>net/url.URL\<close> (the \<^verbatim>\<open>User\<close> pointer is left out).\<close>

record URL =
  Scheme :: string
  Opaque :: string
  Host :: string
  Path :: string
  RawPath :: string
  ForceQuery :: bool
  RawQuery :: string
  Fragment :: string

text \<open>
  A body stream (\<^verbatim>\<open>io.ReadCloser\<close>): the bytes it still yields, whether it has been
  closed, and what kind of stream it is. \<^verbatim>\<open>Close\<close> closes a \<open>Closable\<close> stream and does
  nothing on an \<^verbatim>\<open>ioutil.NopCloser\<close> or on \<^verbatim>\<open>http.NoBody\<close>.
\<close>

datatype body_kind = Closable | NopCloser | NoBody

record body =
  unread :: "byte list"
  closed :: bool
  kind :: body_kind

text \<open>\<^verbatim>\<open>http.Header\<close> is \<^verbatim>\<open>map[string][]string\<close>.\<close>

type_synonym header = "string \<rightharpoonup> string list"

text \<open>
  \<^verbatim>\<open>req.URL\<close> is a pointer. \<^verbatim>\<open>NewCDRRequest\<close> makes it point at its local variable
  \<^verbatim>\<open>u\<close> and later writes to \<^verbatim>\<open>u\<close> itself, so the model keeps \<^verbatim>\<open>u\<close> beside the
  request and records where the pointer goes: to \<^verbatim>\<open>u\<close> (\<open>BuilderURL\<close>), to some other
  URL value (\<open>OtherURL\<close>), or nowhere.
\<close>

datatype url_ptr = NilURL | BuilderURL | OtherURL URL

text \<open>The fields of \<^verbatim>\<open>http.Request\<close> that \<^verbatim>\<open>client.go\<close> touches. \<open>Header = None\<close> is the nil map.\<close>

record Request =
  Method :: string
  URL :: url_ptr
  Proto :: string
  ProtoMajor :: int
  ProtoMinor :: int
  Header :: "header option"
  Body :: "body option"
  ContentLength :: int
  req_Host :: string

record request_state =
  u :: URL
  req :: Request

text \<open>The URL value the request's pointer leads to.\<close>

definition request_URL :: "request_state \<Rightarrow> URL option" where
  "request_URL st =
     (case URL (req st) of
        NilURL \<Rightarrow> None
      | BuilderURL \<Rightarrow> Some (u st)
      | OtherURL x \<Rightarrow> Some x)"

text \<open>
  The body of a response is a stream that \<^verbatim>\<open>Do\<close> may read, close and replace while the
  transport's stream lives on, so response bodies are kept in a store, a list of streams
  with the position as address, and \<^verbatim>\<open>resp.Body\<close> is an address or nil.
\<close>

record http_Response =
  StatusCode :: int
  resp_Header :: header
  resp_Body :: "nat option"

text \<open>\<^verbatim>\<open>cdr.Response\<close> wraps the \<^verbatim>\<open>*http.Response\<close>.\<close>

record Response =
  Response :: http_Response

section \<open>Strings and header keys\<close>

text \<open>\<^verbatim>\<open>strings.HasSuffix\<close> and \<^verbatim>\<open>strings.HasPrefix\<close>.\<close>

definition HasSuffix :: "string \<Rightarrow> string \<Rightarrow> bool" where
  "HasSuffix s suffix =
     (length suffix \<le> length s \<and> drop (length s - length suffix) s = suffix)"

definition HasPrefix :: "string \<Rightarrow> string \<Rightarrow> bool" where
  "HasPrefix s prefix = (length prefix \<le> length s \<and> take (length prefix) s = prefix)"

text \<open>
  \<^verbatim>\<open>http.Header.Set\<close> and \<^verbatim>\<open>Get\<close> store and look up under the canonical form of the
  key (\<^verbatim>\<open>textproto.CanonicalMIMEHeaderKey\<close>): a key made of token bytes only gets an
  upper-case letter first and after each hyphen and lower-case letters elsewhere; any other
  key is left as it is. The token bytes are the letters, the digits and
  \<^verbatim>\<open>! # $ % & ' * + - . ^ _ ` | ~\<close>.
\<close>

definition validHeaderFieldByte :: "char \<Rightarrow> bool" where
  "validHeaderFieldByte c =
     (let n = (of_char c :: nat)
      in n = 33 \<or> (35 \<le> n \<and> n \<le> 39) \<or> n = 42 \<or> n = 43 \<or> n = 45 \<or> n = 46
         \<or> (48 \<le> n \<and> n \<le> 57) \<or> (65 \<le> n \<and> n \<le> 90) \<or> (94 \<le> n \<and> n \<le> 122)
         \<or> n = 124 \<or> n = 126)"

fun canonicalMIMEHeaderKey :: "bool \<Rightarrow> string \<Rightarrow> string" where
  "canonicalMIMEHeaderKey upper [] = []"
| "canonicalMIMEHeaderKey upper (c # cs) =
     (let n = (of_char c :: nat);
          c' = (if upper \<and> 97 \<le> n \<and> n \<le> 122 then char_of (n - 32)
                else if \<not> upper \<and> 65 \<le> n \<and> n \<le> 90 then char_of (n + 32)
                else c)
      in c' # canonicalMIMEHeaderKey (c' = CHR ''-'') cs)"

definition CanonicalMIMEHeaderKey :: "string \<Rightarrow> string" where
  "CanonicalMIMEHeaderKey s =
     (if list_all validHeaderFieldByte s then canonicalMIMEHeaderKey True s else s)"

definition Header_Set :: "header \<Rightarrow> string \<Rightarrow> string \<Rightarrow> header" where
  "Header_Set h key val = h(CanonicalMIMEHeaderKey key \<mapsto> [val])"

definition Header_Get :: "header \<Rightarrow> string \<Rightarrow> string" where
  "Header_Get h key =
     (case h (CanonicalMIMEHeaderKey key) of
        None \<Rightarrow> ''''
      | Some [] \<Rightarrow> ''''
      | Some (v # _) \<Rightarrow> v)"

section \<open>The token provider, the world and the client\<close>

text \<open>
  Modelled from the spec: the \<^verbatim>\<open>iam\<close> package of the repository (\<^verbatim>\<open>iam.Client\<close>, its
  \<^verbatim>\<open>Token\<close> and \<^verbatim>\<open>HttpClient\<close> methods) is not among the sources. The spec describes it
  as the Token Provider, a collaborator exposing \<open>currentToken() -> string\<close>, which never
  fails, and \<open>underlyingTransport()\<close>, an HTTP-capable transport. The provider is a
  mutable object: its state holds the current token, and the transport maps a request
  to the pair \<^verbatim>\<open>(*http.Response, error)\<close> that \<^verbatim>\<open>http.Client.Do\<close> returns, together
  with the store of the body streams it opened.
\<close>

record iam_Client =
  token :: string
  HttpClient_Do :: "request_state \<Rightarrow> http_Response option \<times> gerror option \<times> body list"

definition Token :: "iam_Client \<Rightarrow> string" where
  "Token ic = token ic"

text \<open>
  The world outside the client: the token providers by address, and \<open>ext\<close> for whatever
  else an option function can reach.
\<close>

record 'w world =
  iam :: "nat \<rightharpoonup> iam_Client"
  ext :: 'w

text \<open>
  \<^verbatim>\<open>type OptionFunc func(*http.Request) error\<close>: an option gets the request by pointer,
  so it may change the request, the URL behind \<^verbatim>\<open>req.URL\<close> and the world.
  A nil function is \<open>None\<close> in an option list.
\<close>

type_synonym 'w OptionFunc =
  "'w world \<Rightarrow> request_state \<Rightarrow> gerror option \<times> 'w world \<times> request_state"

datatype Marshaller = Marshaller
datatype Unmarshaller = Unmarshaller string
datatype os_File = File string

text \<open>
  \<^verbatim>\<open>TenantSTU3Service\<close> and \<^verbatim>\<open>OperationsSTU3Service\<close> as \<^verbatim>\<open>newClient\<close> fills them (their
  pointer back to the client is left out).
\<close>

record STU3Service =
  timeZone :: string
  ma :: Marshaller
  um :: Unmarshaller

text \<open>The pointers \<^verbatim>\<open>iamClient\<close>, \<^verbatim>\<open>config\<close>, \<^verbatim>\<open>fhirStoreURL\<close> and \<^verbatim>\<open>debugFile\<close> may be nil.\<close>

record Client =
  iamClient :: "nat option"
  config :: "Config option"
  fhirStoreURL :: "URL option"
  UserAgent :: string
  TenantSTU3 :: "STU3Service option"
  OperationsSTU3 :: "STU3Service option"
  debugFile :: "os_File option"

text \<open>
  What \<^verbatim>\<open>client.go\<close> calls outside the repository, as parameters: \<^verbatim>\<open>url.Parse\<close>,
  \<^verbatim>\<open>os.OpenFile\<close>, the two \<^verbatim>\<open>jsonformat\<close> constructors, and the text that
  \<^verbatim>\<open>httputil.DumpRequest\<close> and \<^verbatim>\<open>DumpResponse\<close> print for a request and for a response
  with the bytes of its body. What the two do to the body streams is written out in
  \<open>dump_request\<close> and \<open>dump_response\<close> below.
\<close>

record env =
  url_Parse :: "string \<Rightarrow> gerror + URL"
  OpenFile :: "string \<Rightarrow> gerror + os_File"
  NewMarshaller :: "gerror + Marshaller"
  NewUnmarshaller :: "string \<Rightarrow> gerror + Unmarshaller"
  DumpRequest :: "request_state \<Rightarrow> string"
  DumpResponse :: "http_Response \<Rightarrow> byte list \<Rightarrow> string"

section \<open>Client construction\<close>

text \<open>\<^verbatim>\<open>SetFHIRStoreURL\<close>, lines 116-128. The client is updated in place; the model returns it.\<close>

definition SetFHIRStoreURL :: "env \<Rightarrow> Client \<Rightarrow> string \<Rightarrow> Client \<times> gerror option" where
  "SetFHIRStoreURL e c urlStr =
     (if urlStr = '''' then (c, Some ErrCDRURLCannotBeEmpty)
      else
        let urlStr' = (if \<not> HasSuffix urlStr ''/'' then urlStr @ ''/'' else urlStr)
        in case url_Parse e urlStr' of
             Inl err \<Rightarrow> (c\<lparr>fhirStoreURL := None\<rparr>, Some err)
           | Inr parsed \<Rightarrow> (c\<lparr>fhirStoreURL := Some parsed\<rparr>, None))"

text \<open>\<^verbatim>\<open>newClient\<close>, lines 67-96, and \<^verbatim>\<open>NewClient\<close>, lines 63-65.\<close>

definition newClient :: "env \<Rightarrow> nat option \<Rightarrow> Config option \<Rightarrow> (gerror + Client) outcome" where
  "newClient e iamClient' config' =
     (case config' of
        None \<Rightarrow> Panics
      | Some cfg \<Rightarrow>
          (let c = \<lparr>iamClient = iamClient', config = config', fhirStoreURL = None,
                    UserAgent = userAgent, TenantSTU3 = None, OperationsSTU3 = None,
                    debugFile = None\<rparr>;
               fhirStore = (if FHIRStore cfg = '''' then CDRURL cfg @ ''/store/fhir/''
                            else FHIRStore cfg)
           in (case SetFHIRStoreURL e c fhirStore of
                 (c1, Some err) \<Rightarrow> Returns (Inl err)
               | (c1, None) \<Rightarrow>
                   (let c2 = (if DebugLog cfg \<noteq> ''''
                              then (case OpenFile e (DebugLog cfg) of
                                      Inl err \<Rightarrow> c1\<lparr>debugFile := None\<rparr>
                                    | Inr f \<Rightarrow> c1\<lparr>debugFile := Some f\<rparr>)
                              else c1)
                    in (case NewMarshaller e of
                          Inl err \<Rightarrow> Returns (Inl err)
                        | Inr ma' \<Rightarrow>
                            (case NewUnmarshaller e (TimeZone cfg) of
                               Inl err \<Rightarrow> Returns (Inl err)
                             | Inr um' \<Rightarrow>
                                 (let service = \<lparr>timeZone = TimeZone cfg, ma = ma', um = um'\<rparr>
                                  in Returns (Inr (c2\<lparr>TenantSTU3 := Some service,
                                                       OperationsSTU3 := Some service\<rparr>)))))))))"

definition NewClient :: "env \<Rightarrow> nat option \<Rightarrow> Config option \<Rightarrow> (gerror + Client) outcome" where
  "NewClient e iamClient' config' = newClient e iamClient' config'"

section \<open>Building a request\<close>

text \<open>
  \<^verbatim>\<open>NewCDRRequest\<close>, lines 136-148: the copy \<^verbatim>\<open>u\<close> of the base URL with its opaque part
  set, and the fresh request that points at it.
\<close>

definition new_request :: "URL \<Rightarrow> Config \<Rightarrow> string \<Rightarrow> string \<Rightarrow> request_state" where
  "new_request base cfg method path =
     (let u0 = base\<lparr>Opaque := Path base @ RootOrgID cfg @ ''/'' @ path\<rparr>
      in \<lparr>u = u0,
          req = \<lparr>Method = method, URL = BuilderURL, Proto = ''HTTP/1.1'',
                 ProtoMajor = 1, ProtoMinor = 1, Header = Some Map.empty,
                 Body = None, ContentLength = 0, req_Host = Host u0\<rparr>\<rparr>)"

text \<open>
  Lines 150-158, the loop over the options: a nil entry is skipped, the first error
  ends the loop. The result is the error if any, the world and the request as the
  options left them.
\<close>

fun run_options ::
  "'w OptionFunc option list \<Rightarrow> 'w world \<Rightarrow> request_state
     \<Rightarrow> gerror option \<times> 'w world \<times> request_state" where
  "run_options [] w st = (None, w, st)"
| "run_options (None # fns) w st = run_options fns w st"
| "run_options (Some fn # fns) w st =
     (case fn w st of
        (Some err, w', st') \<Rightarrow> (Some err, w', st')
      | (None, w', st') \<Rightarrow> run_options fns w' st')"

text \<open>
  Lines 160-166: for POST, PUT and PATCH the query of \<^verbatim>\<open>u\<close> is cleared and the body
  bytes are attached with their length. The test is on the \<^verbatim>\<open>method\<close> argument.
\<close>

definition attach_body :: "string \<Rightarrow> byte list \<Rightarrow> request_state \<Rightarrow> request_state" where
  "attach_body method bodyBytes st =
     (if method = ''POST'' \<or> method = ''PUT'' \<or> method = ''PATCH''
      then st\<lparr>u := (u st)\<lparr>RawQuery := ''''\<rparr>,
              req := (req st)\<lparr>Body := Some \<lparr>unread = bodyBytes, closed = False,
                                                kind = NopCloser\<rparr>,
                              ContentLength := int (length bodyBytes)\<rparr>\<rparr>
      else st)"

text \<open>
  Lines 168-174: the headers. \<^verbatim>\<open>Header.Set\<close> on a nil map panics, and so does
  \<^verbatim>\<open>Token\<close> on a nil provider.
\<close>

definition set_headers :: "Client \<Rightarrow> 'w world \<Rightarrow> request_state \<Rightarrow> request_state outcome" where
  "set_headers c w st =
     (case Header (req st) of
        None \<Rightarrow> Panics
      | Some h0 \<Rightarrow>
          (case iamClient c of
             None \<Rightarrow> Panics
           | Some a \<Rightarrow>
               (case iam w a of
                  None \<Rightarrow> Panics
                | Some ic \<Rightarrow>
                    let h1 = Header_Set h0 ''Accept'' ''*/*'';
                        h2 = Header_Set h1 ''Authorization'' (''Bearer '' @ Token ic);
                        h3 = Header_Set h2 ''API-Version'' APIVersion;
                        h4 = (if UserAgent c \<noteq> ''''
                              then Header_Set h3 ''User-Agent'' (UserAgent c) else h3)
                    in Returns (st\<lparr>req := (req st)\<lparr>Header := Some h4\<rparr>\<rparr>))))"

text \<open>
  \<^verbatim>\<open>NewCDRRequest\<close>, lines 135-176. It returns \<^verbatim>\<open>(nil, err)\<close>, here \<open>Inl err\<close>, or
  \<^verbatim>\<open>(req, nil)\<close>, here \<open>Inr\<close> of the request with the URL \<^verbatim>\<open>u\<close> it points at; the world
  is returned as the options left it.
\<close>

definition NewCDRRequest ::
  "Client \<Rightarrow> string \<Rightarrow> string \<Rightarrow> byte list \<Rightarrow> 'w OptionFunc option list \<Rightarrow> 'w world
     \<Rightarrow> 'w world \<times> (gerror + request_state) outcome" where
  "NewCDRRequest c method path bodyBytes options w =
     (case fhirStoreURL c of
        None \<Rightarrow> (w, Panics)
      | Some base \<Rightarrow>
          (case config c of
             None \<Rightarrow> (w, Panics)
           | Some cfg \<Rightarrow>
               (case run_options options w (new_request base cfg method path) of
                  (Some err, w1, _) \<Rightarrow> (w1, Returns (Inl err))
                | (None, w1, st1) \<Rightarrow>
                    (case set_headers c w1 (attach_body method bodyBytes st1) of
                       Panics \<Rightarrow> (w1, Panics)
                     | Returns st2 \<Rightarrow> (w1, Returns (Inr st2))))))"

text \<open>
  Where a request is sent. \<^verbatim>\<open>net/http\<close> connects to the host of the URL under its
  scheme and sends \<^verbatim>\<open>URL.RequestURI()\<close> in the request line. For a URL with an opaque
  part that is the opaque part (after the scheme and a colon when it starts with two
  slashes), then the query if there is one. The branch for an empty opaque part, the
  escaped path, is not needed for requests built here: \<open>None\<close>.
\<close>

definition RequestURI :: "URL \<Rightarrow> string option" where
  "RequestURI x =
     (if Opaque x = '''' then None
      else Some ((if HasPrefix (Opaque x) ''//'' then Scheme x @ '':'' @ Opaque x
                  else Opaque x)
                 @ (if ForceQuery x \<or> RawQuery x \<noteq> '''' then ''?'' @ RawQuery x else '''')))"

definition request_target :: "request_state \<Rightarrow> string option" where
  "request_target st =
     (case request_URL st of
        None \<Rightarrow> None
      | Some x \<Rightarrow>
          (case RequestURI x of
             None \<Rightarrow> None
           | Some uri \<Rightarrow> Some (Scheme x @ ''://'' @ Host x @ uri)))"

section \<open>Response classification\<close>

text \<open>\<^verbatim>\<open>CheckResponse\<close>, lines 231-237.\<close>

definition CheckResponse :: "http_Response \<Rightarrow> gerror option" where
  "CheckResponse r =
     (if StatusCode r = 200 \<or> StatusCode r = 201 \<or> StatusCode r = 202
         \<or> StatusCode r = 204 \<or> StatusCode r = 304
      then None
      else Some ErrNonHttp20xResponse)"

section \<open>Executing a request\<close>

text \<open>\<^verbatim>\<open>newResponse\<close>, lines 185-188.\<close>

definition newResponse :: "http_Response \<Rightarrow> Response" where
  "newResponse r = \<lparr>Response = r\<rparr>"

text \<open>
  The destination \<^verbatim>\<open>v\<close> of \<^verbatim>\<open>Do\<close>: nil, an \<^verbatim>\<open>io.Writer\<close>, or a value to decode JSON
  into. Of a writer and of a decoder the model keeps what \<^verbatim>\<open>Do\<close> uses: given the bytes
  the body yields, the error, if any, that \<^verbatim>\<open>io.Copy\<close> or \<^verbatim>\<open>Decode\<close> ends with, and how
  many of the bytes it took from the stream.
\<close>

datatype destination =
    NoDestination
  | Writer "byte list \<Rightarrow> gerror option \<times> nat"
  | Structured "byte list \<Rightarrow> gerror option \<times> nat"

text \<open>
  Reading from a closed stream fails and leaves it as it is; otherwise the bytes taken are
  gone from the stream. \<^verbatim>\<open>Close\<close> marks a \<open>Closable\<close> stream closed and does nothing on
  the other kinds.
\<close>

definition read_body ::
  "(byte list \<Rightarrow> gerror option \<times> nat) \<Rightarrow> body \<Rightarrow> gerror option \<times> body" where
  "read_body f b =
     (if closed b then (Some (Foreign ''http: read on closed response body''), b)
      else (case f (unread b) of
              (rerr, n) \<Rightarrow> (rerr, b\<lparr>unread := drop n (unread b)\<rparr>)))"

definition Close_body :: "body \<Rightarrow> body" where
  "Close_body b = (if kind b = Closable then b\<lparr>closed := True\<rparr> else b)"

text \<open>
  \<^verbatim>\<open>httputil.DumpRequest(req, true)\<close>, line 195, on the body of the request. Its
  \<^verbatim>\<open>drainBody\<close> leaves a nil body and \<^verbatim>\<open>http.NoBody\<close> alone; any other body it reads to
  the end and closes, and \<^verbatim>\<open>req.Body\<close> becomes an \<^verbatim>\<open>ioutil.NopCloser\<close> over the bytes
  read. When the read fails the dump fails: \<^verbatim>\<open>Do\<close> drops the error, the text is empty and
  the body stays. The result is the text and the request as it goes on to the transport.
\<close>

definition dump_request :: "env \<Rightarrow> request_state \<Rightarrow> string \<times> request_state" where
  "dump_request e r =
     (case Body (req r) of
        None \<Rightarrow> (DumpRequest e r, r)
      | Some b \<Rightarrow>
          if kind b = NoBody then (DumpRequest e r, r)
          else if closed b then ('''', r)
          else (DumpRequest e r,
                r\<lparr>req := (req r)\<lparr>Body := Some \<lparr>unread = unread b, closed = False,
                                                kind = NopCloser\<rparr>\<rparr>\<rparr>))"

text \<open>
  \<^verbatim>\<open>httputil.DumpResponse(resp, true)\<close>, line 201, on the store \<open>ss\<close> of body streams. A
  nil body and \<^verbatim>\<open>http.NoBody\<close> are left alone. Any other body that can be read is read to
  the end and closed, a new \<^verbatim>\<open>ioutil.NopCloser\<close> over the bytes read is put in the store,
  and \<^verbatim>\<open>resp.Body\<close> is made to point at it. When the read fails the dump fails: the text
  is empty and nothing changes. The result is the text, the response and the store. (An
  address outside the store does not occur in Go; the model has it panic.)
\<close>

definition dump_response ::
  "env \<Rightarrow> http_Response \<Rightarrow> body list \<Rightarrow> (string \<times> http_Response \<times> body list) outcome" where
  "dump_response e x ss =
     (case resp_Body x of
        None \<Rightarrow> Returns (DumpResponse e x [], x, ss)
      | Some k \<Rightarrow>
          if length ss \<le> k then Panics
          else if kind (ss ! k) = NoBody then Returns (DumpResponse e x [], x, ss)
          else if closed (ss ! k) then Returns ('''', x, ss)
          else Returns
                 (DumpResponse e x (unread (ss ! k)),
                  x\<lparr>resp_Body := Some (length ss)\<rparr>,
                  ss[k := Close_body ((ss ! k)\<lparr>unread := []\<rparr>)]
                    @ [\<lparr>unread = unread (ss ! k), closed = False, kind = NopCloser\<rparr>]))"

text \<open>The two lines written to the debug file, lines 196 and 202, around the dumped text.\<close>

definition request_dump :: "string \<Rightarrow> string" where
  "request_dump dumped =
     ''[go-hsdp-api] --- Request start ---'' @ [CHR 0x0A] @ dumped @ [CHR 0x0A]
     @ ''[go-hsdp-api] Request end ---'' @ [CHR 0x0A]"

definition response_dump :: "string \<Rightarrow> string" where
  "response_dump dumped =
     ''[go-hsdp-api] --- Response start ---'' @ [CHR 0x0A] @ dumped @ [CHR 0x0A]
     @ ''[go-hsdp-api] --- Response end ---'' @ [CHR 0x0A]"

text \<open>
  Lines 218-225: the deferred \<^verbatim>\<open>Close\<close> and the read. A nil \<^verbatim>\<open>resp.Body\<close> panics. The
  stream that \<^verbatim>\<open>resp.Body\<close> points at is read, then closed.
\<close>

definition read_and_close ::
  "(byte list \<Rightarrow> gerror option \<times> nat) \<Rightarrow> http_Response \<Rightarrow> body list
     \<Rightarrow> body list \<times> (Response option \<times> gerror option) outcome" where
  "read_and_close f x ss =
     (case resp_Body x of
        None \<Rightarrow> (ss, Panics)
      | Some k \<Rightarrow>
          if length ss \<le> k then (ss, Panics)
          else (case read_body f (ss ! k) of
                  (rerr, b') \<Rightarrow>
                    (ss[k := Close_body b'], Returns (Some (newResponse x), rerr))))"

text \<open>
  Lines 205-227. A nil \<^verbatim>\<open>resp\<close> with a nil \<^verbatim>\<open>err\<close> makes \<^verbatim>\<open>CheckResponse\<close> dereference nil.
  On a classification error the response is returned before the destination is looked
  at.
\<close>

definition after_transport ::
  "destination \<Rightarrow> http_Response option \<Rightarrow> gerror option \<Rightarrow> body list
     \<Rightarrow> body list \<times> (Response option \<times> gerror option) outcome" where
  "after_transport v resp err ss =
     (if err \<noteq> None then (ss, Returns (None, err))
      else (case resp of
              None \<Rightarrow> (ss, Panics)
            | Some x \<Rightarrow>
                (case CheckResponse x of
                   Some cerr \<Rightarrow> (ss, Returns (Some (newResponse x), Some cerr))
                 | None \<Rightarrow>
                     (case v of
                        NoDestination \<Rightarrow> (ss, Returns (Some (newResponse x), None))
                      | Writer f \<Rightarrow> read_and_close f x ss
                      | Structured f \<Rightarrow> read_and_close f x ss))))"

text \<open>
  Lines 194-198: with a debug file the request is dumped, which may replace its body,
  and the dump is written. The result is what was written and the request that goes to
  the transport.
\<close>

definition sent_request :: "env \<Rightarrow> Client \<Rightarrow> request_state \<Rightarrow> string list \<times> request_state" where
  "sent_request e c r =
     (if debugFile c \<noteq> None
      then (case dump_request e r of (dumped, r') \<Rightarrow> ([request_dump dumped], r'))
      else ([], r))"

text \<open>
  Lines 200-204: with a debug file a response that is not nil is dumped, which may drain
  its body and replace it, and the dump is written.
\<close>

definition received_response ::
  "env \<Rightarrow> Client \<Rightarrow> http_Response option \<Rightarrow> body list
     \<Rightarrow> (string list \<times> http_Response option \<times> body list) outcome" where
  "received_response e c resp ss =
     (case resp of
        None \<Rightarrow> Returns ([], None, ss)
      | Some x \<Rightarrow>
          if debugFile c \<noteq> None
          then (case dump_response e x ss of
                  Panics \<Rightarrow> Panics
                | Returns (dumped, x', ss') \<Rightarrow> Returns ([response_dump dumped], Some x', ss'))
          else Returns ([], Some x, ss))"

text \<open>
  \<^verbatim>\<open>Do\<close>, lines 193-228. The result is what was appended to the debug file, in order,
  the store of the response body streams as the call leaves it, and the pair
  \<^verbatim>\<open>(*Response, error)\<close>. The response handed back is the object the transport returned,
  so its body is whatever stream \<^verbatim>\<open>resp.Body\<close> points at in that store.
\<close>

definition Do ::
  "env \<Rightarrow> Client \<Rightarrow> request_state \<Rightarrow> destination \<Rightarrow> 'w world
     \<Rightarrow> string list \<times> body list \<times> (Response option \<times> gerror option) outcome" where
  "Do e c r v w =
     (case sent_request e c r of
        (log1, r1) \<Rightarrow>
          (case iamClient c of
             None \<Rightarrow> (log1, [], Panics)
           | Some a \<Rightarrow>
               (case iam w a of
                  None \<Rightarrow> (log1, [], Panics)
                | Some ic \<Rightarrow>
                    (case HttpClient_Do ic r1 of
                       (resp, err, ss) \<Rightarrow>
                         (case received_response e c resp ss of
                            Panics \<Rightarrow> (log1, ss, Panics)
                          | Returns (log2, resp', ss') \<Rightarrow>
                              (case after_transport v resp' err ss' of
                                 (ss'', res) \<Rightarrow> (log1 @ log2, ss'', res)))))))"

section \<open>The option chain in the words of the specification\<close>

text \<open>
  The specification has the builder apply each option function in the order supplied,
  the first failure ending the chain. A nil entry is not a function: \<open>non_nil\<close> are the
  functions of an option list, and \<open>call_in_order\<close> calls every function of a list, each
  on the world and the request as the one before left them. They are compared with the
  loop \<open>run_options\<close> of the code.
\<close>

fun non_nil :: "'a option list \<Rightarrow> 'a list" where
  "non_nil [] = []"
| "non_nil (None # xs) = non_nil xs"
| "non_nil (Some x # xs) = x # non_nil xs"

fun call_in_order ::
  "'w OptionFunc list \<Rightarrow> 'w world \<Rightarrow> request_state
     \<Rightarrow> gerror option \<times> 'w world \<times> request_state" where
  "call_in_order [] w st = (None, w, st)"
| "call_in_order (fn # fns) w st =
     (case fn w st of
        (Some err, w', st') \<Rightarrow> (Some err, w', st')
      | (None, w', st') \<Rightarrow> call_in_order fns w' st')"

section \<open>Reading a result, and example values\<close>

text \<open>
  Projections of what \<^verbatim>\<open>NewCDRRequest\<close> returns: the request if one was built, the
  values stored in its header under a key, the query string and the target of the URL
  it points at.
\<close>

definition built_request ::
  "'w world \<times> (gerror + request_state) outcome \<Rightarrow> request_state option" where
  "built_request r = (case snd r of Returns (Inr st) \<Rightarrow> Some st | _ \<Rightarrow> None)"

definition built_header ::
  "'w world \<times> (gerror + request_state) outcome \<Rightarrow> string \<Rightarrow> string list option" where
  "built_header r key =
     (case built_request r of
        None \<Rightarrow> None
      | Some st \<Rightarrow>
          (case Header (req st) of
             None \<Rightarrow> None
           | Some h \<Rightarrow> h (CanonicalMIMEHeaderKey key)))"

definition built_query :: "'w world \<times> (gerror + request_state) outcome \<Rightarrow> string option" where
  "built_query r =
     (case built_request r of
        None \<Rightarrow> None
      | Some st \<Rightarrow> map_option RawQuery (request_URL st))"

definition built_target :: "'w world \<times> (gerror + request_state) outcome \<Rightarrow> string option" where
  "built_target r =
     (case built_request r of
        None \<Rightarrow> None
      | Some st \<Rightarrow> request_target st)"

text \<open>
  A client whose base URL is what \<^verbatim>\<open>url.Parse\<close> makes of
  \<^verbatim>\<open>https://example.org/store/fhir/\<close>, with root organization \<^verbatim>\<open>org1\<close>; a token provider
  at address 0 whose transport answers 404 with the JSON body \<^verbatim>\<open>{}\<close>, a stream of the
  network that \<^verbatim>\<open>Close\<close> closes, at address 0 of the store; a world whose
  \<open>ext\<close> is a log of the options that ran.
\<close>

definition example_base :: URL where
  "example_base =
     \<lparr>Scheme = ''https'', Opaque = '''', Host = ''example.org'', Path = ''/store/fhir/'',
      RawPath = '''', ForceQuery = False, RawQuery = '''', Fragment = ''''\<rparr>"

definition example_config :: Config where
  "example_config =
     \<lparr>Region = ''us-east'', Environment = ''client-test'', RootOrgID = ''org1'',
      CDRURL = ''https://example.org'', FHIRStore = '''', TimeZone = '''', DebugLog = ''''\<rparr>"

definition example_client :: Client where
  "example_client =
     \<lparr>iamClient = Some 0, config = Some example_config, fhirStoreURL = Some example_base,
      UserAgent = userAgent, TenantSTU3 = None, OperationsSTU3 = None, debugFile = None\<rparr>"

definition not_found :: http_Response where
  "not_found =
     \<lparr>StatusCode = 404, resp_Header = [''Content-Type'' \<mapsto> [''application/json'']],
      resp_Body = Some 0\<rparr>"

definition not_found_body :: body where
  "not_found_body = \<lparr>unread = [123, 125], closed = False, kind = Closable\<rparr>"

definition example_provider :: "string \<Rightarrow> iam_Client" where
  "example_provider t =
     \<lparr>token = t, HttpClient_Do = (\<lambda>r. (Some not_found, None, [not_found_body]))\<rparr>"

definition example_world :: "string \<Rightarrow> string list world" where
  "example_world t = \<lparr>iam = [0 \<mapsto> example_provider t], ext = []\<rparr>"

text \<open>
  Option functions: two spies that log their name, one succeeding and one failing;
  \<^verbatim>\<open>req.URL.RawQuery = q\<close>; and \<^verbatim>\<open>req.URL = &x\<close>.
\<close>

definition spy_ok :: "string \<Rightarrow> string list OptionFunc" where
  "spy_ok name w st = (None, w\<lparr>ext := ext w @ [name]\<rparr>, st)"

definition spy_fail :: "string \<Rightarrow> string list OptionFunc" where
  "spy_fail name w st = (Some (Foreign name), w\<lparr>ext := ext w @ [name]\<rparr>, st)"

definition set_query :: "string \<Rightarrow> 'w OptionFunc" where
  "set_query q w st =
     (None, w,
      (case URL (req st) of
         NilURL \<Rightarrow> st
       | BuilderURL \<Rightarrow> st\<lparr>u := (u st)\<lparr>RawQuery := q\<rparr>\<rparr>
       | OtherURL x \<Rightarrow> st\<lparr>req := (req st)\<lparr>URL := OtherURL (x\<lparr>RawQuery := q\<rparr>)\<rparr>\<rparr>))"

definition replace_URL :: "URL \<Rightarrow> 'w OptionFunc" where
  "replace_URL x w st = (None, w, st\<lparr>req := (req st)\<lparr>URL := OtherURL x\<rparr>\<rparr>)"

text \<open>
  An environment: the parser gives what \<^verbatim>\<open>url.Parse\<close> gives on the two strings used
  below and refuses the rest; files open and the codecs are made.
\<close>

definition example_env :: env where
  "example_env =
     \<lparr>url_Parse = (\<lambda>s. if s = ''/store/fhir/''
                        then Inr (example_base\<lparr>Scheme := '''', Host := ''''\<rparr>)
                        else if s = ''https://example.org/store/fhir/'' then Inr example_base
                        else Inl (Foreign ''parse'')),
      OpenFile = (\<lambda>name. Inr (File name)),
      NewMarshaller = Inr Marshaller,
      NewUnmarshaller = (\<lambda>tz. Inr (Unmarshaller tz)),
      DumpRequest = (\<lambda>r. Method (req r)),
      DumpResponse = (\<lambda>r bs. ''response'')\<rparr>"

section \<open>Auxiliary facts\<close>

lemma canonical_keys:
  "CanonicalMIMEHeaderKey ''Accept'' = ''Accept''"
  "CanonicalMIMEHeaderKey ''Authorization'' = ''Authorization''"
  "CanonicalMIMEHeaderKey ''API-Version'' = ''Api-Version''"
  "CanonicalMIMEHeaderKey ''User-Agent'' = ''User-Agent''"
  by code_simp+

lemmas example_defs =
  example_base_def example_config_def example_client_def example_provider_def
  example_world_def

lemmas build_defs =
  NewCDRRequest_def new_request_def attach_body_def set_headers_def Header_Set_def
  canonical_keys Token_def APIVersion_def userAgent_def libraryVersion_def
  built_request_def Let_def

text \<open>A call that built a request ran the whole option list and then set the headers.\<close>

lemma NewCDRRequest_Inr:
  assumes "NewCDRRequest c m p b opts w = (w', Returns (Inr st))"
  obtains base cfg st1 where "fhirStoreURL c = Some base" "config c = Some cfg"
    "run_options opts w (new_request base cfg m p) = (None, w', st1)"
    "set_headers c w' (attach_body m b st1) = Returns st"
  using assms
  by (auto simp: NewCDRRequest_def split: option.splits prod.splits outcome.splits)

lemma set_headers_Returns:
  assumes "set_headers c w st = Returns st'"
  obtains h0 a ic where "Header (req st) = Some h0" "iamClient c = Some a" "iam w a = Some ic"
    "st' = st\<lparr>req := (req st)\<lparr>Header := Some
        (let h3 = Header_Set (Header_Set (Header_Set h0 ''Accept'' ''*/*'')
                   ''Authorization'' (''Bearer '' @ Token ic)) ''API-Version'' APIVersion
         in if UserAgent c \<noteq> '''' then Header_Set h3 ''User-Agent'' (UserAgent c) else h3)\<rparr>\<rparr>"
  using assms
  by (auto simp: set_headers_def Let_def split: option.splits if_splits)

lemma run_options_append:
  "run_options (xs @ ys) w st =
     (case run_options xs w st of
        (Some err, w', st') \<Rightarrow> (Some err, w', st')
      | (None, w', st') \<Rightarrow> run_options ys w' st')"
  by (induction xs w st rule: run_options.induct) (auto split: prod.splits option.splits)

lemma run_options_filter:
  "run_options (filter (\<lambda>fn. fn \<noteq> None) fns) w st = run_options fns w st"
  by (induction fns w st rule: run_options.induct) (auto split: prod.splits option.splits)

lemma run_options_replicate_None:
  "run_options (replicate n None) w st = (None, w, st)"
  by (induction n) auto

lemma run_options_non_nil:
  "run_options fns w st = call_in_order (non_nil fns) w st"
  by (induction fns w st rule: run_options.induct) (auto split: prod.splits option.splits)

text \<open>
  What \<^verbatim>\<open>NewClient\<close> does with a store URL that does not parse, and the user agent of
  every client it returns.
\<close>

lemma NewClient_unparsable:
  assumes "FHIRStore cfg = s" and "s \<noteq> ''''"
    and "url_Parse e (if HasSuffix s ''/'' then s else s @ ''/'') = Inl err"
  shows "NewClient e ic (Some cfg) = Returns (Inl err)"
  using assms
  by (cases "HasSuffix s ''/''")
     (simp_all add: NewClient_def newClient_def SetFHIRStoreURL_def Let_def)

lemma NewClient_UserAgent:
  assumes "NewClient e ic cfg = Returns (Inr c)"
  shows "UserAgent c = userAgent"
  using assms
  by (auto simp: NewClient_def newClient_def SetFHIRStoreURL_def Let_def
        split: option.splits sum.splits if_splits)

section \<open>Properties\<close>

text \<open>
  C1. The status codes 200, 201, 202, 204 and 304 classify as success (no error). Every
  other status code, so in particular every other code from 100 to 599, classifies as the
  generic error \<^verbatim>\<open>ErrNonHttp20xResponse\<close>. The outcome depends on the status code alone:
  two responses with the same status code classify alike whatever their headers and
  bodies are.
\<close>

theorem CheckResponse_status:
  "(StatusCode r \<in> {200, 201, 202, 204, 304} \<longrightarrow> CheckResponse r = None)
   \<and> (StatusCode r \<notin> {200, 201, 202, 204, 304} \<longrightarrow> CheckResponse r = Some ErrNonHttp20xResponse)
   \<and> (StatusCode r' = StatusCode r \<longrightarrow> CheckResponse r' = CheckResponse r)"
  by (simp add: CheckResponse_def)

theorem CheckResponse_status_witness:
  "CheckResponse \<lparr>StatusCode = 204, resp_Header = Map.empty, resp_Body = None\<rparr> = None
   \<and> CheckResponse \<lparr>StatusCode = 404, resp_Header = Map.empty,
        resp_Body = Some 0\<rparr> = Some ErrNonHttp20xResponse
   \<and> CheckResponse \<lparr>StatusCode = 404, resp_Header = Map.empty, resp_Body = None\<rparr>
       = CheckResponse \<lparr>StatusCode = 404, resp_Header = Map.empty,
           resp_Body = Some 0\<rparr>"
  using CheckResponse_status
          [of "\<lparr>StatusCode = 204, resp_Header = Map.empty, resp_Body = None\<rparr>"
              "\<lparr>StatusCode = 204, resp_Header = Map.empty, resp_Body = None\<rparr>"]
        CheckResponse_status
          [of "\<lparr>StatusCode = 404, resp_Header = Map.empty,
                 resp_Body = Some 0\<rparr>"
              "\<lparr>StatusCode = 404, resp_Header = Map.empty, resp_Body = None\<rparr>"]
  by simp

text \<open>
  C2, as amended. When the transport delivers a response and its status code classifies
  as an error, \<^verbatim>\<open>Do\<close> returns a non-nil \<^verbatim>\<open>Response\<close> together with that non-nil error,
  whatever the destination. With no debug file the response body is not read or closed by
  \<^verbatim>\<open>Do\<close>: nothing is written, and the response and the store of body streams are exactly
  what the transport delivered. With a debug file, a body that can be read has been read
  to the end and closed by the response dump (\<^verbatim>\<open>Close\<close> has no effect on a
  \<^verbatim>\<open>NopCloser\<close>), and the response handed back points at a new, unclosed stream over the
  same bytes; a nil body, \<^verbatim>\<open>http.NoBody\<close> and a body that was closed already are left as
  they are.
\<close>

theorem Do_error_status_keeps_response:
  assumes "iamClient c = Some a" and "iam w a = Some ic"
    and "HttpClient_Do ic (snd (sent_request e c r)) = (Some x, None, ss)"
    and "CheckResponse x = Some cerr"
  shows "(debugFile c = None
            \<longrightarrow> Do e c r v w = ([], ss, Returns (Some \<lparr>Response = x\<rparr>, Some cerr)))
         \<and> (debugFile c \<noteq> None \<and> resp_Body x = Some k \<and> k < length ss
              \<and> kind (ss ! k) \<noteq> NoBody \<and> \<not> closed (ss ! k)
            \<longrightarrow> snd (Do e c r v w)
                  = (ss[k := Close_body ((ss ! k)\<lparr>unread := []\<rparr>)]
                       @ [\<lparr>unread = unread (ss ! k), closed = False, kind = NopCloser\<rparr>],
                     Returns (Some \<lparr>Response = x\<lparr>resp_Body := Some (length ss)\<rparr>\<rparr>,
                              Some cerr)))
         \<and> (debugFile c \<noteq> None
              \<and> (resp_Body x = None
                  \<or> (resp_Body x = Some k \<and> k < length ss
                      \<and> (kind (ss ! k) = NoBody \<or> closed (ss ! k))))
            \<longrightarrow> snd (Do e c r v w) = (ss, Returns (Some \<lparr>Response = x\<rparr>, Some cerr)))"
proof (intro conjI impI)
  assume "debugFile c = None"
  with assms show "Do e c r v w = ([], ss, Returns (Some \<lparr>Response = x\<rparr>, Some cerr))"
    by (simp add: Do_def sent_request_def received_response_def after_transport_def
          newResponse_def)
next
  assume dbg: "debugFile c \<noteq> None \<and> resp_Body x = Some k \<and> k < length ss
                 \<and> kind (ss ! k) \<noteq> NoBody \<and> \<not> closed (ss ! k)"
  from assms(4) have "CheckResponse (x\<lparr>resp_Body := Some (length ss)\<rparr>) = Some cerr"
    by (simp add: CheckResponse_def)
  with assms dbg
  show "snd (Do e c r v w)
          = (ss[k := Close_body ((ss ! k)\<lparr>unread := []\<rparr>)]
               @ [\<lparr>unread = unread (ss ! k), closed = False, kind = NopCloser\<rparr>],
             Returns (Some \<lparr>Response = x\<lparr>resp_Body := Some (length ss)\<rparr>\<rparr>, Some cerr))"
    by (auto simp: Do_def received_response_def dump_response_def after_transport_def
          newResponse_def split: prod.splits)
next
  assume "debugFile c \<noteq> None
            \<and> (resp_Body x = None
                \<or> (resp_Body x = Some k \<and> k < length ss
                    \<and> (kind (ss ! k) = NoBody \<or> closed (ss ! k))))"
  with assms show "snd (Do e c r v w) = (ss, Returns (Some \<lparr>Response = x\<rparr>, Some cerr))"
    by (auto simp: Do_def received_response_def dump_response_def after_transport_def
          newResponse_def split: prod.splits)
qed

theorem Do_error_status_keeps_response_witness:
  "Do example_env example_client
      (new_request example_base example_config ''GET'' ''Patient/123'')
      NoDestination (example_world ''t'')
     = ([], [\<lparr>unread = [123, 125], closed = False, kind = Closable\<rparr>],
        Returns (Some \<lparr>Response = not_found\<rparr>, Some ErrNonHttp20xResponse))
   \<and> snd (Do example_env (example_client\<lparr>debugFile := Some (File ''debug.log'')\<rparr>)
          (new_request example_base example_config ''GET'' ''Patient/123'')
          NoDestination (example_world ''t''))
     = ([\<lparr>unread = [], closed = True, kind = Closable\<rparr>,
         \<lparr>unread = [123, 125], closed = False, kind = NopCloser\<rparr>],
        Returns (Some \<lparr>Response = not_found\<lparr>resp_Body := Some 1\<rparr>\<rparr>,
                 Some ErrNonHttp20xResponse))
   \<and> snd (Do example_env (example_client\<lparr>debugFile := Some (File ''debug.log'')\<rparr>)
          (new_request example_base example_config ''GET'' ''Patient/123'')
          NoDestination
          \<lparr>iam = [0 \<mapsto> \<lparr>token = ''t'',
                     HttpClient_Do = (\<lambda>r. (Some (not_found\<lparr>resp_Body := None\<rparr>), None, []))\<rparr>],
           ext = ()\<rparr>)
     = ([], Returns (Some \<lparr>Response = not_found\<lparr>resp_Body := None\<rparr>\<rparr>,
                     Some ErrNonHttp20xResponse))"
proof -
  let ?r = "new_request example_base example_config ''GET'' ''Patient/123''"
  let ?bare = "\<lparr>token = ''t'',
                 HttpClient_Do = (\<lambda>r. (Some (not_found\<lparr>resp_Body := None\<rparr>), None, []))\<rparr>"
  let ?w = "\<lparr>iam = [0 \<mapsto> ?bare], ext = ()\<rparr>"
  let ?d = "example_client\<lparr>debugFile := Some (File ''debug.log'')\<rparr>"
  let ?ss = "[\<lparr>unread = [123, 125], closed = False, kind = Closable\<rparr>]"
  have a: "iamClient example_client = Some 0" "iamClient ?d = Some 0"
    by (simp_all add: example_client_def)
  have w: "iam (example_world ''t'') 0 = Some (example_provider ''t'')"
    by (simp add: example_world_def)
  have t: "HttpClient_Do (example_provider ''t'') (snd (sent_request example_env example_client ?r))
             = (Some not_found, None, ?ss)"
    "HttpClient_Do (example_provider ''t'') (snd (sent_request example_env ?d ?r))
             = (Some not_found, None, ?ss)"
    by (simp_all add: example_provider_def not_found_body_def)
  have c: "CheckResponse not_found = Some ErrNonHttp20xResponse"
    by (simp add: CheckResponse_def not_found_def)
  have plain: "debugFile example_client = None"
    by (simp add: example_client_def)
  have dbg: "debugFile ?d \<noteq> None \<and> resp_Body not_found = Some 0 \<and> 0 < length ?ss
               \<and> kind (?ss ! 0) \<noteq> NoBody \<and> \<not> closed (?ss ! 0)"
    by (simp add: not_found_def)
  have w': "iam ?w 0 = Some ?bare"
    by simp
  have t': "HttpClient_Do ?bare (snd (sent_request example_env ?d ?r))
              = (Some (not_found\<lparr>resp_Body := None\<rparr>), None, [])"
    by simp
  have c': "CheckResponse (not_found\<lparr>resp_Body := None\<rparr>) = Some ErrNonHttp20xResponse"
    by (simp add: CheckResponse_def not_found_def)
  have nil: "debugFile ?d \<noteq> None \<and> resp_Body (not_found\<lparr>resp_Body := None\<rparr>) = None"
    by simp
  from Do_error_status_keeps_response [OF a(2) w' t' c', of NoDestination 0] nil
  have third: "snd (Do example_env ?d ?r NoDestination ?w)
                 = ([], Returns (Some \<lparr>Response = not_found\<lparr>resp_Body := None\<rparr>\<rparr>,
                                 Some ErrNonHttp20xResponse))"
    by blast
  from Do_error_status_keeps_response [OF a(1) w t(1) c, of NoDestination 0] plain
       Do_error_status_keeps_response [OF a(2) w t(2) c, of NoDestination 0] dbg
  have "Do example_env example_client ?r NoDestination (example_world ''t'')
          = ([], ?ss, Returns (Some \<lparr>Response = not_found\<rparr>, Some ErrNonHttp20xResponse))"
    and "snd (Do example_env ?d ?r NoDestination (example_world ''t''))
          = (?ss[0 := Close_body ((?ss ! 0)\<lparr>unread := []\<rparr>)]
               @ [\<lparr>unread = unread (?ss ! 0), closed = False, kind = NopCloser\<rparr>],
             Returns (Some \<lparr>Response = not_found\<lparr>resp_Body := Some (length ?ss)\<rparr>\<rparr>,
                      Some ErrNonHttp20xResponse))"
    by blast+
  with third show ?thesis
    by (simp add: Close_body_def)
qed

text \<open>
  As the specification states it, C2 fails for a client with a debug file: the same
  call, with no destination, leaves the stream the transport delivered read to the end
  and closed.
\<close>

theorem Do_debug_reads_body_counterexample:
  "snd (snd (HttpClient_Do (example_provider ''t'')
               (new_request example_base example_config ''GET'' ''Patient/123''))) ! 0
     = \<lparr>unread = [123, 125], closed = False, kind = Closable\<rparr>
   \<and> fst (snd (Do example_env (example_client\<lparr>debugFile := Some (File ''debug.log'')\<rparr>)
                (new_request example_base example_config ''GET'' ''Patient/123'')
                NoDestination (example_world ''t''))) ! 0
     = \<lparr>unread = [], closed = True, kind = Closable\<rparr>"
  by (simp add: Do_def sent_request_def dump_request_def received_response_def
        dump_response_def after_transport_def CheckResponse_def newResponse_def
        Close_body_def new_request_def example_defs not_found_def not_found_body_def)

text \<open>
  C3. For every method, relative path \<open>p\<close> and root organization, the request that
  \<^verbatim>\<open>NewCDRRequest\<close> sets up points at a URL whose opaque part is the path of the base URL,
  then the root organization, a slash and \<open>p\<close>, with \<open>p\<close> taken as it is. When no option
  interferes (the options are absent or nil) this is the URL of the built request, with
  the scheme and host of the base URL. With the base URL
  \<^verbatim>\<open>https://example.org/store/fhir/\<close>, the root organization \<^verbatim>\<open>org1\<close> and the path
  \<^verbatim>\<open>Patient/123\<close> the request goes to
  \<^verbatim>\<open>https://example.org/store/fhir/org1/Patient/123\<close>.
\<close>

theorem NewCDRRequest_opaque:
  "request_URL (new_request base cfg m p)
     = Some (base\<lparr>Opaque := Path base @ RootOrgID cfg @ ''/'' @ p\<rparr>)
   \<and> (fhirStoreURL c = Some base \<and> config c = Some cfg
        \<and> NewCDRRequest c m p b (replicate n None) w = (w', Returns (Inr st))
      \<longrightarrow> (\<exists>x. request_URL st = Some x
              \<and> Opaque x = Path base @ RootOrgID cfg @ ''/'' @ p
              \<and> Scheme x = Scheme base \<and> Host x = Host base
              \<and> (Scheme base = ''https'' \<and> Host base = ''example.org''
                   \<and> Path base = ''/store/fhir/'' \<and> RawQuery base = '''' \<and> \<not> ForceQuery base
                   \<and> RootOrgID cfg = ''org1'' \<and> p = ''Patient/123''
                 \<longrightarrow> request_target st
                       = Some ''https://example.org/store/fhir/org1/Patient/123'')))"
proof (intro conjI impI)
  show "request_URL (new_request base cfg m p)
          = Some (base\<lparr>Opaque := Path base @ RootOrgID cfg @ ''/'' @ p\<rparr>)"
    by (simp add: request_URL_def new_request_def)
next
  assume "fhirStoreURL c = Some base \<and> config c = Some cfg
            \<and> NewCDRRequest c m p b (replicate n None) w = (w', Returns (Inr st))"
  then have c: "fhirStoreURL c = Some base" "config c = Some cfg"
    and r: "NewCDRRequest c m p b (replicate n None) w = (w', Returns (Inr st))"
    by simp_all
  from r obtain base' cfg' st1 where "fhirStoreURL c = Some base'" "config c = Some cfg'"
    and run: "run_options (replicate n None) w (new_request base' cfg' m p) = (None, w', st1)"
    and hdr: "set_headers c w' (attach_body m b st1) = Returns st"
    by (rule NewCDRRequest_Inr)
  with c have st1: "st1 = new_request base cfg m p"
    by (simp add: run_options_replicate_None)
  from hdr have "u st = u (attach_body m b st1)"
    "URL (req st) = URL (req (attach_body m b st1))"
    by (auto elim!: set_headers_Returns)
  with st1 have "request_URL st = Some (u (attach_body m b (new_request base cfg m p)))"
    by (simp add: request_URL_def attach_body_def new_request_def)
  then show "\<exists>x. request_URL st = Some x
              \<and> Opaque x = Path base @ RootOrgID cfg @ ''/'' @ p
              \<and> Scheme x = Scheme base \<and> Host x = Host base
              \<and> (Scheme base = ''https'' \<and> Host base = ''example.org''
                   \<and> Path base = ''/store/fhir/'' \<and> RawQuery base = '''' \<and> \<not> ForceQuery base
                   \<and> RootOrgID cfg = ''org1'' \<and> p = ''Patient/123''
                 \<longrightarrow> request_target st
                       = Some ''https://example.org/store/fhir/org1/Patient/123'')"
    by (auto simp: attach_body_def new_request_def request_target_def request_URL_def
          RequestURI_def HasPrefix_def)
qed

theorem NewCDRRequest_opaque_witness:
  "built_target (NewCDRRequest example_client ''GET'' ''Patient/123'' [] []
                   (example_world ''t''))
     = Some ''https://example.org/store/fhir/org1/Patient/123''"
proof -
  let ?r = "NewCDRRequest example_client ''GET'' ''Patient/123'' [] (replicate 0 None)
              (example_world ''t'')"
  obtain st0 where run: "?r = (example_world ''t'', Returns (Inr st0))"
    by (simp add: build_defs example_defs)
  have c: "fhirStoreURL example_client = Some example_base"
    "config example_client = Some example_config"
    by (simp_all add: example_client_def)
  have ex: "Scheme example_base = ''https'' \<and> Host example_base = ''example.org''
              \<and> Path example_base = ''/store/fhir/'' \<and> RawQuery example_base = ''''
              \<and> \<not> ForceQuery example_base
              \<and> RootOrgID example_config = ''org1'' \<and> ''Patient/123'' = ''Patient/123''"
    by (simp add: example_base_def example_config_def)
  from NewCDRRequest_opaque
         [of example_base example_config "''GET''" "''Patient/123''" example_client "[]" 0
             "example_world ''t''" "example_world ''t''" st0]
       c run ex
  have "request_target st0 = Some ''https://example.org/store/fhir/org1/Patient/123''"
    by blast
  with run show ?thesis
    by (simp add: built_target_def built_request_def)
qed

text \<open>
  C4. When the options before some option all succeed (or are nil) and that option
  returns an error, \<^verbatim>\<open>NewCDRRequest\<close> returns no request and exactly that error. The
  options after it have no part in the outcome: whatever they are, the result is the
  same and the world is left as the failing option left it, so none of them ran.
\<close>

theorem NewCDRRequest_option_error:
  assumes "fhirStoreURL c = Some base" and "config c = Some cfg"
    and "run_options pre w (new_request base cfg m p) = (None, w1, st1)"
    and "fn w1 st1 = (Some err, w2, st2)"
  shows "NewCDRRequest c m p b (pre @ Some fn # post) w = (w2, Returns (Inl err))"
  using assms by (simp add: NewCDRRequest_def run_options_append)

theorem NewCDRRequest_option_error_witness:
  "NewCDRRequest example_client ''GET'' ''Patient'' []
     [Some (spy_ok ''first''), None, Some (spy_fail ''second''), Some (spy_ok ''third'')]
     (example_world ''t'')
   = ((example_world ''t'')\<lparr>ext := [''first'', ''second'']\<rparr>, Returns (Inl (Foreign ''second'')))"
proof -
  have c: "fhirStoreURL example_client = Some example_base"
    "config example_client = Some example_config"
    by (simp_all add: example_client_def)
  have pre: "run_options [Some (spy_ok ''first''), None] (example_world ''t'')
               (new_request example_base example_config ''GET'' ''Patient'')
             = (None, (example_world ''t'')\<lparr>ext := [''first'']\<rparr>,
                new_request example_base example_config ''GET'' ''Patient'')"
    by (simp add: spy_ok_def example_world_def)
  have fail: "spy_fail ''second'' ((example_world ''t'')\<lparr>ext := [''first'']\<rparr>)
                (new_request example_base example_config ''GET'' ''Patient'')
              = (Some (Foreign ''second''), (example_world ''t'')\<lparr>ext := [''first'', ''second'']\<rparr>,
                 new_request example_base example_config ''GET'' ''Patient'')"
    by (simp add: spy_fail_def example_world_def)
  from NewCDRRequest_option_error
         [where fn = "spy_fail ''second''" and b = "[]" and post = "[Some (spy_ok ''third'')]",
          OF c pre fail]
  show ?thesis by simp
qed

text \<open>
  C5. Every request that \<^verbatim>\<open>NewCDRRequest\<close> builds carries the Authorization header
  \<^verbatim>\<open>Bearer\<close>, a space and the token that the client's token provider holds when the
  headers are set, that is in the world as the call leaves it. The client itself stores no
  token: the same client in a world where the token has been rotated builds a request
  with the new token.
\<close>

theorem NewCDRRequest_authorization:
  assumes "NewCDRRequest c m p b opts w = (w', Returns (Inr st))"
  shows "\<exists>a ic h. iamClient c = Some a \<and> iam w' a = Some ic \<and> Header (req st) = Some h
           \<and> Header_Get h ''Authorization'' = ''Bearer '' @ Token ic"
proof -
  from assms obtain st1 where "set_headers c w' (attach_body m b st1) = Returns st"
    by (rule NewCDRRequest_Inr)
  then show ?thesis
    by (rule set_headers_Returns)
       (simp add: Header_Get_def Header_Set_def canonical_keys Let_def)
qed

theorem NewCDRRequest_authorization_witness:
  "built_header (NewCDRRequest example_client ''GET'' ''Patient/123'' [] []
                   (example_world ''token-at-construction''))
     ''Authorization'' = Some [''Bearer token-at-construction'']
   \<and> built_header (NewCDRRequest example_client ''GET'' ''Patient/123'' [] []
                   (example_world ''rotated-token''))
     ''Authorization'' = Some [''Bearer rotated-token'']"
proof -
  let ?r1 = "NewCDRRequest example_client ''GET'' ''Patient/123'' [] []
               (example_world ''token-at-construction'')"
  let ?r2 = "NewCDRRequest example_client ''GET'' ''Patient/123'' [] []
               (example_world ''rotated-token'')"
  have run1: "?r1 = (example_world ''token-at-construction'',
                     Returns (Inr (the (built_request ?r1))))"
    by (simp add: build_defs example_defs)
  have run2: "?r2 = (example_world ''rotated-token'', Returns (Inr (the (built_request ?r2))))"
    by (simp add: build_defs example_defs)
  from NewCDRRequest_authorization [OF run1] NewCDRRequest_authorization [OF run2]
  show ?thesis
    by (simp add: build_defs example_defs built_header_def Header_Get_def)
qed

text \<open>
  C6, as amended. For POST, PUT and PATCH and every \<^verbatim>\<open>bodyBytes\<close>, a request built by
  \<^verbatim>\<open>NewCDRRequest\<close> has a content length equal to the number of body bytes and a body
  over those bytes. The query string that is cleared is that of the URL value \<^verbatim>\<open>u\<close> the
  builder made: the query string of the built request is empty whenever \<^verbatim>\<open>req.URL\<close>
  still points at \<^verbatim>\<open>u\<close> after the options ran, as it does when an option set the query
  through \<^verbatim>\<open>req.URL.RawQuery\<close>.
\<close>

theorem NewCDRRequest_mutating:
  assumes "m = ''POST'' \<or> m = ''PUT'' \<or> m = ''PATCH''"
    and "NewCDRRequest c m p b opts w = (w', Returns (Inr st))"
  shows "ContentLength (req st) = int (length b)
         \<and> Body (req st) = Some \<lparr>unread = b, closed = False, kind = NopCloser\<rparr>
         \<and> RawQuery (u st) = ''''
         \<and> (URL (req st) = BuilderURL \<longrightarrow> map_option RawQuery (request_URL st) = Some '''')"
proof -
  from assms(2) obtain st1 where "set_headers c w' (attach_body m b st1) = Returns st"
    by (rule NewCDRRequest_Inr)
  with assms(1) show ?thesis
    by (auto simp: attach_body_def request_URL_def elim!: set_headers_Returns)
qed

theorem NewCDRRequest_mutating_witness:
  "map_option (ContentLength \<circ> req)
     (built_request (NewCDRRequest example_client ''POST'' ''Patient'' [1, 2, 3]
                       [Some (set_query ''a=b'')] (example_world ''t''))) = Some 3
   \<and> built_query (NewCDRRequest example_client ''POST'' ''Patient'' [1, 2, 3]
                       [Some (set_query ''a=b'')] (example_world ''t'')) = Some ''''"
proof -
  let ?r = "NewCDRRequest example_client ''POST'' ''Patient'' [1, 2, 3]
              [Some (set_query ''a=b'')] (example_world ''t'')"
  have run: "?r = (example_world ''t'', Returns (Inr (the (built_request ?r))))"
    by (simp add: build_defs example_defs set_query_def)
  have m: "''POST'' = ''POST'' \<or> ''POST'' = ''PUT'' \<or> ''POST'' = ''PATCH''"
    by simp
  have ptr: "URL (req (the (built_request ?r))) = BuilderURL"
    by (simp add: build_defs example_defs set_query_def)
  from NewCDRRequest_mutating [OF m run] ptr show ?thesis
    by (simp add: build_defs example_defs set_query_def built_query_def request_URL_def)
qed

text \<open>
  As the specification states it, C6 fails for an option that sets a query string by
  replacing \<^verbatim>\<open>req.URL\<close>: the builder then clears the query of \<^verbatim>\<open>u\<close>, which the request no longer
  points at, and the POST request keeps the query \<^verbatim>\<open>a=b\<close>.
\<close>

theorem NewCDRRequest_query_counterexample:
  "built_query (NewCDRRequest example_client ''POST'' ''Patient'' [1, 2, 3]
                  [Some (replace_URL (example_base\<lparr>Path := ''/elsewhere'', RawQuery := ''a=b''\<rparr>))]
                  (example_world ''t'')) = Some ''a=b''"
  by (simp add: build_defs example_defs replace_URL_def built_query_def request_URL_def)

text \<open>
  C7. For a method other than POST, PUT and PATCH, so for GET and DELETE, the body
  bytes are ignored: the outcome of \<^verbatim>\<open>NewCDRRequest\<close> is the same as with no body bytes
  at all. The builder attaches no body and sets no content length: both are as the
  options left them, and with no option (or nil options only) the built request has no
  body and content length 0.
\<close>

theorem NewCDRRequest_nonmutating:
  assumes "m \<noteq> ''POST''" and "m \<noteq> ''PUT''" and "m \<noteq> ''PATCH''"
  shows "NewCDRRequest c m p b opts w = NewCDRRequest c m p [] opts w
         \<and> (NewCDRRequest c m p b (replicate n None) w = (w', Returns (Inr st))
              \<longrightarrow> Body (req st) = None \<and> ContentLength (req st) = 0)
         \<and> (fhirStoreURL c = Some base \<and> config c = Some cfg
              \<and> NewCDRRequest c m p b opts w = (w', Returns (Inr st))
              \<longrightarrow> (\<exists>st1. run_options opts w (new_request base cfg m p) = (None, w', st1)
                     \<and> Body (req st) = Body (req st1)
                     \<and> ContentLength (req st) = ContentLength (req st1)))"
proof -
  from assms have same: "attach_body m b' s = s" for b' s
    by (simp add: attach_body_def)
  have indep: "NewCDRRequest c m p b opts w = NewCDRRequest c m p [] opts w"
    unfolding NewCDRRequest_def same ..
  have bare: "Body (req st) = None \<and> ContentLength (req st) = 0"
    if "NewCDRRequest c m p b (replicate n None) w = (w', Returns (Inr st))"
  proof -
    from that obtain base cfg st1 where
      run: "run_options (replicate n None) w (new_request base cfg m p) = (None, w', st1)"
      and hdr: "set_headers c w' (attach_body m b st1) = Returns st"
      by (rule NewCDRRequest_Inr)
    from run have "st1 = new_request base cfg m p"
      by (simp add: run_options_replicate_None)
    with hdr show ?thesis
      by (auto simp: same new_request_def elim!: set_headers_Returns)
  qed
  have kept: "\<exists>st1. run_options opts w (new_request base cfg m p) = (None, w', st1)
                     \<and> Body (req st) = Body (req st1)
                     \<and> ContentLength (req st) = ContentLength (req st1)"
    if c: "fhirStoreURL c = Some base" "config c = Some cfg"
      and r: "NewCDRRequest c m p b opts w = (w', Returns (Inr st))"
  proof -
    from r obtain base' cfg' st1 where "fhirStoreURL c = Some base'" "config c = Some cfg'"
      and run: "run_options opts w (new_request base' cfg' m p) = (None, w', st1)"
      and hdr: "set_headers c w' (attach_body m b st1) = Returns st"
      by (rule NewCDRRequest_Inr)
    with c have run': "run_options opts w (new_request base cfg m p) = (None, w', st1)"
      by simp
    from hdr have "Body (req st) = Body (req st1)"
      "ContentLength (req st) = ContentLength (req st1)"
      by (auto simp: same elim!: set_headers_Returns)
    with run' show ?thesis
      by blast
  qed
  from indep bare kept show ?thesis
    by blast
qed

theorem NewCDRRequest_nonmutating_witness:
  "NewCDRRequest example_client ''GET'' ''Patient/123'' [1, 2, 3] [] (example_world ''t'')
     = NewCDRRequest example_client ''GET'' ''Patient/123'' [] [] (example_world ''t'')
   \<and> map_option (Body \<circ> req)
       (built_request (NewCDRRequest example_client ''DELETE'' ''Patient/123'' [1, 2, 3] []
                         (example_world ''t''))) = Some None
   \<and> map_option (ContentLength \<circ> req)
       (built_request (NewCDRRequest example_client ''DELETE'' ''Patient/123'' [1, 2, 3] []
                         (example_world ''t''))) = Some 0"
proof -
  let ?r = "NewCDRRequest example_client ''DELETE'' ''Patient/123'' [1, 2, 3]
              (replicate 0 None) (example_world ''t'')"
  obtain st0 where run: "?r = (example_world ''t'', Returns (Inr st0))"
    by (simp add: build_defs example_defs)
  have c: "fhirStoreURL example_client = Some example_base"
    "config example_client = Some example_config"
    by (simp_all add: example_client_def)
  have get: "''GET'' \<noteq> ''POST''" "''GET'' \<noteq> ''PUT''" "''GET'' \<noteq> ''PATCH''"
    and del: "''DELETE'' \<noteq> ''POST''" "''DELETE'' \<noteq> ''PUT''" "''DELETE'' \<noteq> ''PATCH''"
    by simp_all
  from NewCDRRequest_nonmutating [OF get]
  have indep: "NewCDRRequest example_client ''GET'' ''Patient/123'' [1, 2, 3] []
                 (example_world ''t'')
               = NewCDRRequest example_client ''GET'' ''Patient/123'' [] []
                 (example_world ''t'')"
    by (rule conjunct1)
  from NewCDRRequest_nonmutating [OF del] run
  have bare: "Body (req st0) = None \<and> ContentLength (req st0) = 0"
    by blast
  from NewCDRRequest_nonmutating
         [OF del, of example_client "''Patient/123''" "[1, 2, 3]" "replicate 0 None"
            "example_world ''t''" 0 "example_world ''t''" st0 example_base example_config]
       c run
  have kept: "\<exists>st1. run_options (replicate 0 None) (example_world ''t'')
                      (new_request example_base example_config ''DELETE'' ''Patient/123'')
                    = (None, example_world ''t'', st1)
                  \<and> Body (req st0) = Body (req st1)"
    by blast
  from run have "built_request (NewCDRRequest example_client ''DELETE'' ''Patient/123''
                   [1, 2, 3] [] (example_world ''t'')) = Some st0"
    by (simp add: built_request_def)
  with indep bare kept show ?thesis
    by simp
qed

text \<open>
  C8, as amended. Every request that \<^verbatim>\<open>NewCDRRequest\<close> builds has, whatever the options
  did, the headers Accept \<^verbatim>\<open>*/*\<close>, Authorization \<^verbatim>\<open>Bearer\<close> with the token, and
  API-Version. It has the header User-Agent with the client's \<^verbatim>\<open>UserAgent\<close> when that
  field is not empty, as it is in every client that \<^verbatim>\<open>NewClient\<close> returns
  (\<open>NewClient_UserAgent\<close>); for an empty field the builder does not set the header.
\<close>

theorem NewCDRRequest_headers:
  assumes "NewCDRRequest c m p b opts w = (w', Returns (Inr st))"
  shows "\<exists>a ic h. iamClient c = Some a \<and> iam w' a = Some ic \<and> Header (req st) = Some h
           \<and> h (CanonicalMIMEHeaderKey ''Accept'') = Some [''*/*'']
           \<and> h (CanonicalMIMEHeaderKey ''Authorization'') = Some [''Bearer '' @ Token ic]
           \<and> h (CanonicalMIMEHeaderKey ''API-Version'') = Some [APIVersion]
           \<and> (UserAgent c \<noteq> ''''
                \<longrightarrow> h (CanonicalMIMEHeaderKey ''User-Agent'') = Some [UserAgent c])"
proof -
  from assms obtain st1 where "set_headers c w' (attach_body m b st1) = Returns st"
    by (rule NewCDRRequest_Inr)
  then show ?thesis
    by (rule set_headers_Returns) (simp add: Header_Set_def canonical_keys Let_def)
qed

theorem NewCDRRequest_headers_witness:
  "built_header (NewCDRRequest example_client ''GET'' ''Patient/123'' [] [] (example_world ''t''))
     ''Accept'' = Some [''*/*'']
   \<and> built_header (NewCDRRequest example_client ''GET'' ''Patient/123'' [] [] (example_world ''t''))
     ''Authorization'' = Some [''Bearer t'']
   \<and> built_header (NewCDRRequest example_client ''GET'' ''Patient/123'' [] [] (example_world ''t''))
     ''API-Version'' = Some [''1'']
   \<and> built_header (NewCDRRequest example_client ''GET'' ''Patient/123'' [] [] (example_world ''t''))
     ''User-Agent'' = Some [''go-hsdp-api/cdr/0.27.0'']"
proof -
  let ?r = "NewCDRRequest example_client ''GET'' ''Patient/123'' [] [] (example_world ''t'')"
  have run: "?r = (example_world ''t'', Returns (Inr (the (built_request ?r))))"
    by (simp add: build_defs example_defs)
  from NewCDRRequest_headers [OF run] show ?thesis
    by (simp add: build_defs example_defs built_header_def)
qed

text \<open>
  As the specification states it, C8 fails for a client whose exported field \<^verbatim>\<open>UserAgent\<close> has
  been set to the empty string: the call succeeds and the built request has no
  User-Agent header.
\<close>

theorem NewCDRRequest_user_agent_counterexample:
  "built_request (NewCDRRequest (example_client\<lparr>UserAgent := ''''\<rparr>) ''GET'' ''Patient/123''
                    [] [] (example_world ''t'')) \<noteq> None
   \<and> built_header (NewCDRRequest (example_client\<lparr>UserAgent := ''''\<rparr>) ''GET'' ''Patient/123''
                    [] [] (example_world ''t'')) ''User-Agent'' = None"
  by (simp add: build_defs example_defs built_header_def)

text \<open>
  C9. The specification has \<^verbatim>\<open>NewClient\<close> fail for a configuration with no base URL.
  The code does not: with an empty \<^verbatim>\<open>CDRURL\<close> and no \<^verbatim>\<open>FHIRStore\<close> the store URL handed to
  \<^verbatim>\<open>SetFHIRStoreURL\<close> is \<^verbatim>\<open>/store/fhir/\<close>, which is not empty, so the check that returns
  \<^verbatim>\<open>ErrCDRURLCannotBeEmpty\<close> is passed; where that string parses and the codecs are
  made, \<^verbatim>\<open>NewClient\<close> returns a client, whose base URL is the parsed \<^verbatim>\<open>/store/fhir/\<close>.
  (A store URL that does not parse does make \<^verbatim>\<open>NewClient\<close> fail with the parser's error:
  \<open>NewClient_unparsable\<close>.)
\<close>

theorem NewClient_empty_CDRURL:
  assumes "CDRURL cfg = ''''" and "FHIRStore cfg = ''''"
    and "url_Parse e ''/store/fhir/'' = Inr parsed"
    and "NewMarshaller e = Inr ma'" and "NewUnmarshaller e (TimeZone cfg) = Inr um'"
  shows "\<exists>c. NewClient e ic (Some cfg) = Returns (Inr c) \<and> fhirStoreURL c = Some parsed"
  using assms
  by (auto simp: NewClient_def newClient_def SetFHIRStoreURL_def HasSuffix_def Let_def
        split: sum.splits)

theorem NewClient_empty_CDRURL_witness:
  "NewClient example_env (Some 0)
     (Some \<lparr>Region = '''', Environment = '''', RootOrgID = '''', CDRURL = '''', FHIRStore = '''',
            TimeZone = '''', DebugLog = ''''\<rparr>)
   = Returns (Inr \<lparr>iamClient = Some 0,
        config = Some \<lparr>Region = '''', Environment = '''', RootOrgID = '''', CDRURL = '''',
                        FHIRStore = '''', TimeZone = '''', DebugLog = ''''\<rparr>,
        fhirStoreURL = Some \<lparr>Scheme = '''', Opaque = '''', Host = '''', Path = ''/store/fhir/'',
                              RawPath = '''', ForceQuery = False, RawQuery = '''', Fragment = ''''\<rparr>,
        UserAgent = ''go-hsdp-api/cdr/0.27.0'',
        TenantSTU3 = Some \<lparr>timeZone = '''', ma = Marshaller, um = Unmarshaller ''''\<rparr>,
        OperationsSTU3 = Some \<lparr>timeZone = '''', ma = Marshaller, um = Unmarshaller ''''\<rparr>,
        debugFile = None\<rparr>)"
proof -
  let ?cfg = "\<lparr>Region = '''', Environment = '''', RootOrgID = '''', CDRURL = '''',
               FHIRStore = '''', TimeZone = '''', DebugLog = ''''\<rparr>"
  have cfg: "CDRURL ?cfg = ''''" "FHIRStore ?cfg = ''''"
    by simp_all
  have parse: "url_Parse example_env ''/store/fhir/''
                 = Inr (example_base\<lparr>Scheme := '''', Host := ''''\<rparr>)"
    by (simp add: example_env_def)
  have ma: "NewMarshaller example_env = Inr Marshaller"
    and um: "NewUnmarshaller example_env (TimeZone ?cfg) = Inr (Unmarshaller '''')"
    by (simp_all add: example_env_def)
  from NewClient_empty_CDRURL [OF cfg parse ma um, of "Some 0"] show ?thesis
    by (auto simp: NewClient_def newClient_def SetFHIRStoreURL_def HasSuffix_def Let_def
          example_env_def example_base_def userAgent_def libraryVersion_def)
qed

text \<open>
  C10. The loop of \<^verbatim>\<open>NewCDRRequest\<close> calls exactly the entries of the option list that
  are not nil, in their order, each on the world and the request as the one before left
  them, and stops at the first error: a nil entry is skipped, never called, and the
  options after it still run. So the outcome is the same as on the list without its nil
  entries, and on a list of nil entries only the same as on the empty list. On a client
  with a base URL, a configuration and a token provider, a list of nil entries brings
  neither a panic nor an error: the call leaves the world as it was and returns the
  request with its headers set.
\<close>

theorem NewCDRRequest_skips_nil_options:
  "run_options opts w st0 = call_in_order (non_nil opts) w st0
   \<and> NewCDRRequest c m p b opts w = NewCDRRequest c m p b (filter (\<lambda>fn. fn \<noteq> None) opts) w
   \<and> NewCDRRequest c m p b (replicate n None) w = NewCDRRequest c m p b [] w
   \<and> (fhirStoreURL c = Some base \<and> config c = Some cfg
        \<longrightarrow> NewCDRRequest c m p b opts w
              = (case call_in_order (non_nil opts) w (new_request base cfg m p) of
                   (Some err, w1, st1) \<Rightarrow> (w1, Returns (Inl err))
                 | (None, w1, st1) \<Rightarrow>
                     (case set_headers c w1 (attach_body m b st1) of
                        Panics \<Rightarrow> (w1, Panics)
                      | Returns st2 \<Rightarrow> (w1, Returns (Inr st2)))))
   \<and> (fhirStoreURL c = Some base \<and> config c = Some cfg
        \<and> iamClient c = Some a \<and> iam w a = Some ic
        \<longrightarrow> (\<exists>st. NewCDRRequest c m p b (replicate n None) w = (w, Returns (Inr st))
                 \<and> set_headers c w (attach_body m b (new_request base cfg m p)) = Returns st))"
proof (intro conjI impI)
  show "run_options opts w st0 = call_in_order (non_nil opts) w st0"
    by (rule run_options_non_nil)
  show "NewCDRRequest c m p b opts w
          = NewCDRRequest c m p b (filter (\<lambda>fn. fn \<noteq> None) opts) w"
    unfolding NewCDRRequest_def run_options_filter ..
  show "NewCDRRequest c m p b (replicate n None) w = NewCDRRequest c m p b [] w"
    unfolding NewCDRRequest_def run_options_replicate_None run_options.simps ..
next
  assume "fhirStoreURL c = Some base \<and> config c = Some cfg"
  then show "NewCDRRequest c m p b opts w
              = (case call_in_order (non_nil opts) w (new_request base cfg m p) of
                   (Some err, w1, st1) \<Rightarrow> (w1, Returns (Inl err))
                 | (None, w1, st1) \<Rightarrow>
                     (case set_headers c w1 (attach_body m b st1) of
                        Panics \<Rightarrow> (w1, Panics)
                      | Returns st2 \<Rightarrow> (w1, Returns (Inr st2))))"
    by (simp add: NewCDRRequest_def run_options_non_nil)
next
  assume "fhirStoreURL c = Some base \<and> config c = Some cfg
            \<and> iamClient c = Some a \<and> iam w a = Some ic"
  then show "\<exists>st. NewCDRRequest c m p b (replicate n None) w = (w, Returns (Inr st))
               \<and> set_headers c w (attach_body m b (new_request base cfg m p)) = Returns st"
    by (simp add: NewCDRRequest_def run_options_replicate_None set_headers_def
          attach_body_def new_request_def Let_def)
qed

theorem NewCDRRequest_skips_nil_options_witness:
  "fst (NewCDRRequest example_client ''GET'' ''Patient'' []
          [None, Some (spy_ok ''first''), None, Some (spy_ok ''second'')] (example_world ''t''))
     = (example_world ''t'')\<lparr>ext := [''first'', ''second'']\<rparr>
   \<and> built_target (NewCDRRequest example_client ''GET'' ''Patient'' []
          [None, Some (spy_ok ''first''), None, Some (spy_ok ''second'')] (example_world ''t''))
     = Some ''https://example.org/store/fhir/org1/Patient''
   \<and> fst (NewCDRRequest example_client ''GET'' ''Patient'' [] [None, None] (example_world ''t''))
     = example_world ''t''
   \<and> built_target (NewCDRRequest example_client ''GET'' ''Patient'' [] [None, None]
          (example_world ''t''))
     = Some ''https://example.org/store/fhir/org1/Patient''"
proof -
  let ?opts = "[None, Some (spy_ok ''first''), None, Some (spy_ok ''second'')]"
  have c: "fhirStoreURL example_client = Some example_base
             \<and> config example_client = Some example_config"
    by (simp add: example_client_def)
  have p: "fhirStoreURL example_client = Some example_base
             \<and> config example_client = Some example_config
             \<and> iamClient example_client = Some 0
             \<and> iam (example_world ''t'') 0 = Some (example_provider ''t'')"
    by (simp add: example_client_def example_world_def)
  from NewCDRRequest_skips_nil_options
         [of ?opts "example_world ''t''" _ example_client "''GET''" "''Patient''" "[]" 2
             example_base example_config 0 "example_provider ''t''"]
       c p
  have run: "NewCDRRequest example_client ''GET'' ''Patient'' [] ?opts (example_world ''t'')
               = (case call_in_order (non_nil ?opts) (example_world ''t'')
                         (new_request example_base example_config ''GET'' ''Patient'') of
                    (Some err, w1, st1) \<Rightarrow> (w1, Returns (Inl err))
                  | (None, w1, st1) \<Rightarrow>
                      (case set_headers example_client w1 (attach_body ''GET'' [] st1) of
                         Panics \<Rightarrow> (w1, Panics)
                       | Returns st2 \<Rightarrow> (w1, Returns (Inr st2))))"
    and nils: "\<exists>st. NewCDRRequest example_client ''GET'' ''Patient'' [] (replicate 2 None)
                       (example_world ''t'') = (example_world ''t'', Returns (Inr st))
                 \<and> set_headers example_client (example_world ''t'')
                      (attach_body ''GET'' [] (new_request example_base example_config
                         ''GET'' ''Patient'')) = Returns st"
    by blast+
  from nils obtain st where
    two: "NewCDRRequest example_client ''GET'' ''Patient'' [] [None, None] (example_world ''t'')
            = (example_world ''t'', Returns (Inr st))"
    and st: "set_headers example_client (example_world ''t'')
               (attach_body ''GET'' [] (new_request example_base example_config
                  ''GET'' ''Patient'')) = Returns st"
    by (auto simp: numeral_2_eq_2)
  from st have target: "request_target st = Some ''https://example.org/store/fhir/org1/Patient''"
    by (auto simp: build_defs example_defs request_target_def request_URL_def RequestURI_def
          HasPrefix_def split: option.splits)
  have first: "fst (NewCDRRequest example_client ''GET'' ''Patient'' [] ?opts (example_world ''t''))
                 = (example_world ''t'')\<lparr>ext := [''first'', ''second'']\<rparr>"
    "built_target (NewCDRRequest example_client ''GET'' ''Patient'' [] ?opts
                     (example_world ''t''))
       = Some ''https://example.org/store/fhir/org1/Patient''"
    unfolding run
    by (simp_all add: build_defs example_defs spy_ok_def built_target_def request_target_def
          request_URL_def RequestURI_def HasPrefix_def)
  from two target first show ?thesis
    by (simp add: built_target_def built_request_def)
qed

end
